theory Spec2Isabelle
  imports Main "HOL-Library.Word"
begin

unbundle bit_operations_syntax

section \<open>WrapAround: extension of wrapping counters\<close>

text \<open>
  The Go type \<open>WrapAround[T, ET]\<close> is generic in the raw counter type \<open>T\<close>
  (\<open>uint16\<close> or \<open>uint32\<close>) and the extended type \<open>ET\<close> (\<open>uint32\<close> or
  \<open>uint64\<close>). Here \<open>T\<close> is \<open>'a word\<close> and \<open>ET\<close> is \<open>'b word\<close>; all
  arithmetic wraps as Go's unsigned arithmetic does, and the conversions \<open>ET(v)\<close> and
  \<open>T(e)\<close> are \<open>ucast\<close>.
\<close>

record ('t, 'et) WrapAround_rec =
  fullRange :: 'et
  initialized :: bool
  start :: 't
  highest :: 't
  cycles :: 'et
  extendedHighest :: 'et

record 'et WrapAroundUpdateResult_rec =
  IsRestart :: bool
  PreExtendedStart :: 'et
  PreExtendedHighest :: 'et
  ExtendedVal :: 'et

type_synonym ('a, 'b) WrapAround = "('a word, 'b word) WrapAround_rec"
type_synonym 'b WrapAroundUpdateResult = "'b word WrapAroundUpdateResult_rec"

definition NewWrapAround :: "('a::len, 'b::len) WrapAround" where
  "NewWrapAround =
     \<lparr>fullRange = push_bit LENGTH('a) 1, initialized = False, start = 0, highest = 0,
      cycles = 0, extendedHighest = 0\<rparr>"

definition zeroResult :: "('b::len) WrapAroundUpdateResult" where
  "zeroResult =
     \<lparr>IsRestart = False, PreExtendedStart = 0, PreExtendedHighest = 0, ExtendedVal = 0\<rparr>"

definition getExtendedHighest :: "('b::len) word \<Rightarrow> ('a::len) word \<Rightarrow> 'b word" where
  "getExtendedHighest cyc val = cyc + ucast val"

definition updateExtendedHighest :: "('a::len, 'b::len) WrapAround \<Rightarrow> ('a, 'b) WrapAround" where
  "updateExtendedHighest w = w\<lparr>extendedHighest := getExtendedHighest (cycles w) (highest w)\<rparr>"

definition GetExtendedStart :: "('a::len, 'b::len) WrapAround \<Rightarrow> 'b word" where
  "GetExtendedStart w = ucast (start w)"

definition GetExtendedHighest :: "('a::len, 'b::len) WrapAround \<Rightarrow> 'b word" where
  "GetExtendedHighest w = extendedHighest w"

definition isWrapBack :: "('a::len, 'b::len) WrapAround \<Rightarrow> 'a word \<Rightarrow> 'a word \<Rightarrow> bool" where
  "isWrapBack w earlier later \<longleftrightarrow>
     (ucast later :: 'b word) < drop_bit 1 (fullRange w) \<and>
     (ucast earlier :: 'b word) \<ge> drop_bit 1 (fullRange w)"

definition maybeAdjustStart ::
  "('a::len, 'b::len) WrapAround \<Rightarrow> 'a word \<Rightarrow> ('a, 'b) WrapAround \<times> 'b WrapAroundUpdateResult"
where
  "maybeAdjustStart w val =
     (let cyc = cycles w;
          totalNum = GetExtendedHighest w - GetExtendedStart w + 1
      in if totalNum > drop_bit 1 (fullRange w) then
           (let cyc1 = (if isWrapBack w val (highest w) then cyc - fullRange w else cyc)
            in (w, zeroResult\<lparr>PreExtendedHighest := extendedHighest w,
                              ExtendedVal := getExtendedHighest cyc1 val\<rparr>))
         else if val - start w > ucast (drop_bit 1 (fullRange w)) then
           (let r1 = zeroResult\<lparr>IsRestart := True\<rparr>;
                r2 = (if val > start w
                      then r1\<lparr>PreExtendedStart := fullRange w + ucast (start w)\<rparr>
                      else r1\<lparr>PreExtendedStart := ucast (start w)\<rparr>);
                wb = isWrapBack w val (highest w);
                w1 = (if wb then updateExtendedHighest (w\<lparr>cycles := fullRange w\<rparr>) else w);
                cyc1 = (if wb then 0 else cyc);
                w2 = w1\<lparr>start := val\<rparr>
            in (w2, r2\<lparr>PreExtendedHighest := extendedHighest w2,
                        ExtendedVal := getExtendedHighest cyc1 val\<rparr>))
         else
           (let cyc1 = (if isWrapBack w val (highest w) then cyc - fullRange w else cyc)
            in (w, zeroResult\<lparr>PreExtendedHighest := extendedHighest w,
                              ExtendedVal := getExtendedHighest cyc1 val\<rparr>)))"

definition Update ::
  "('a::len, 'b::len) WrapAround \<Rightarrow> 'a word \<Rightarrow> ('a, 'b) WrapAround \<times> 'b WrapAroundUpdateResult"
where
  "Update w val =
     (if \<not> initialized w then
        (let w1 = updateExtendedHighest (w\<lparr>start := val, highest := val\<rparr>)
         in (w1\<lparr>initialized := True\<rparr>,
             zeroResult\<lparr>PreExtendedHighest := ucast val - 1, ExtendedVal := ucast val\<rparr>))
      else if val - highest w > ucast (drop_bit 1 (fullRange w)) then
        maybeAdjustStart w val
      else
        (let pre = extendedHighest w;
             w1 = (if val < highest w then w\<lparr>cycles := cycles w + fullRange w\<rparr> else w);
             w2 = updateExtendedHighest (w1\<lparr>highest := val\<rparr>)
         in (w2, zeroResult\<lparr>PreExtendedHighest := pre, ExtendedVal := extendedHighest w2\<rparr>)))"

text \<open>A run of \<open>Update\<close> calls: the final state and the results in call order.\<close>

fun UpdateAll ::
  "('a::len, 'b::len) WrapAround \<Rightarrow> 'a word list \<Rightarrow>
   ('a, 'b) WrapAround \<times> 'b WrapAroundUpdateResult list"
where
  "UpdateAll w [] = (w, [])"
| "UpdateAll w (v # vs) =
     (let (w1, r) = Update w v; (w2, rs) = UpdateAll w1 vs in (w2, r # rs))"

section \<open>The dependency-descriptor layer selector\<close>

subsection \<open>Data of the packet and of the selector\<close>

text \<open>
  Go's \<open>int32\<close> and \<open>int\<close> values are held as \<open>int\<close>; the conversion
  \<open>int32(x)\<close> is \<open>signed_take_bit 31\<close> and \<open>uint64(x)\<close> is \<open>word_of_int\<close>.
  A Go \<open>error\<close> is an \<open>error option\<close>, \<open>None\<close> for \<open>nil\<close>; a pointer that
  may be \<open>nil\<close> is an option. A panic of the Go runtime is a value of \<open>panic\<close>.
  The descriptor of an extended descriptor and its frame dependencies are pointers that
  the parser always sets; they are held as values.
\<close>

type_synonym u64 = "64 word"
type_synonym u32 = "32 word"
type_synonym error = string

datatype panic = NilPointerDereference | IndexOutOfRange

record VideoLayer =
  Spatial :: int
  Temporal :: int

definition InvalidLayer :: VideoLayer where
  "InvalidLayer = \<lparr>Spatial = - 1, Temporal = - 1\<rparr>"

text \<open>
  Modelled from the spec: \<open>buffer.VideoLayer.IsValid\<close> is not in the sources. The spec
  gives the layer a single sentinel, \<open>Invalid = (-1, -1)\<close>.
\<close>

definition IsValid :: "VideoLayer \<Rightarrow> bool" where
  "IsValid l \<longleftrightarrow> l \<noteq> InvalidLayer"

datatype DecodeTargetIndication =
  DecodeTargetNotPresent | DecodeTargetDiscardable | DecodeTargetSwitch | DecodeTargetRequired

datatype selectorDecision =
  selectorDecisionUnknown | selectorDecisionForwarded | selectorDecisionDropped

record FrameDependencyTemplate =
  SpatialId :: int
  TemporalId :: int
  DecodeTargetIndications :: "DecodeTargetIndication list"
  FrameDiffs :: "int list"
  ChainDiffs :: "int list"

record FrameDependencyStructure =
  NumDecodeTargets :: int
  NumChains :: int
  DecodeTargetProtectedByChain :: "int list"

text \<open>The parsed descriptor of package \<open>dependencydescriptor\<close> (\<open>dede\<close> in the source).\<close>

record dede_DependencyDescriptor =
  LastPacketInFrame :: bool
  FrameNumber :: "16 word"
  FrameDependencies :: FrameDependencyTemplate
  AttachedStructure :: "FrameDependencyStructure option"
  ActiveDecodeTargetsBitmask :: "u32 option"

record DependencyDescriptorExtension =
  ExtensionDescriptor :: dede_DependencyDescriptor
  ExtensionStructure :: "FrameDependencyStructure option"

record DependencyDescriptorDecodeTarget =
  Target :: int
  Layer :: VideoLayer

record ExtDependencyDescriptor =
  Descriptor :: dede_DependencyDescriptor
  DecodeTargets :: "DependencyDescriptorDecodeTarget list"
  StructureUpdated :: bool
  ActiveDecodeTargetsUpdated :: bool
  Integrity :: bool
  ExtFrameNum :: u64

text \<open>
  Of \<open>buffer.ExtPacket\<close> the selection reads the descriptor and the RTP marker bit
  (\<open>Packet.Header.Marker\<close>); the other fields only reach log lines.
\<close>

record ExtPacket =
  PacketDependencyDescriptor :: "ExtDependencyDescriptor option"
  Marker :: bool

record VideoLayerSelectorResult =
  IsSelected :: bool
  IsRelevant :: bool
  IsSwitching :: bool
  IsResuming :: bool
  RTPMarker :: bool
  ResultDependencyDescriptorExtension :: "8 word list option"

definition emptyResult :: VideoLayerSelectorResult where
  "emptyResult =
     \<lparr>IsSelected = False, IsRelevant = False, IsSwitching = False, IsResuming = False,
      RTPMarker = False, ResultDependencyDescriptorExtension = None\<rparr>"

record FrameDetectionResult =
  TargetValid :: bool
  DTI :: DecodeTargetIndication

datatype logLevel = Debug | Info | Warn | Error

text \<open>
  The selector: the fields of the embedded \<open>Base\<close> that the spec lists (current, previous,
  target and max layer, requested spatial, max seen layer), the lines written to its logger,
  and the fields of \<open>DependencyDescriptor\<close> itself. The decision cache, the frame chains
  and the decode targets are types of this package that are not in the sources: they are
  the type parameters \<open>'c\<close>, \<open>'ch\<close> and \<open>'dt\<close>. A decode target's pointer to
  its chain is the chain's position in \<open>chains\<close>.
\<close>

record ('c, 'ch, 'dt) DependencyDescriptor =
  currentLayer :: VideoLayer
  previousLayer :: VideoLayer
  targetLayer :: VideoLayer
  maxLayer :: VideoLayer
  requestSpatial :: int
  maxSeenLayer :: VideoLayer
  logger :: "(logLevel \<times> string) list"
  decisions :: 'c
  previousActiveDecodeTargetsBitmask :: "u32 option"
  activeDecodeTargetsBitmask :: "u32 option"
  "structure" :: "FrameDependencyStructure option"
  chains :: "'ch list"
  decodeTargets :: "'dt list"

text \<open>
  The operations of the absent collaborators, as the selector calls them. Every operation
  takes what the receiver can reach through its pointers (a chain holds the decision cache,
  a decode target holds its chain) and returns what it may change. \<open>Marshal\<close> is the
  serialisation of the outgoing descriptor.
\<close>

record ('c, 'ch, 'dt) collaborators =
  GetDecision :: "'c \<Rightarrow> u64 \<Rightarrow> selectorDecision \<times> error option"
  AddForwarded :: "'c \<Rightarrow> u64 \<Rightarrow> 'c"
  AddDropped :: "'c \<Rightarrow> u64 \<Rightarrow> 'c"
  NewFrameChain :: "int \<Rightarrow> 'ch"
  FrameChainOnFrame :: "'c \<Rightarrow> u64 \<Rightarrow> FrameDependencyTemplate \<Rightarrow> 'ch \<Rightarrow> 'ch"
  BeginUpdateActive :: "'ch \<Rightarrow> 'ch"
  EndUpdateActive :: "'ch \<Rightarrow> 'ch"
  NewDecodeTarget :: "DependencyDescriptorDecodeTarget \<Rightarrow> nat option \<Rightarrow> 'dt"
  EmbeddedTarget :: "'dt \<Rightarrow> DependencyDescriptorDecodeTarget"
  Active :: "'dt \<Rightarrow> bool"
  DecodeTargetOnFrame ::
    "'c \<Rightarrow> 'ch list \<Rightarrow> u64 \<Rightarrow> FrameDependencyTemplate \<Rightarrow> 'dt \<Rightarrow>
     (FrameDetectionResult \<times> error option) \<times> 'dt"
  UpdateActive :: "u32 \<Rightarrow> 'ch list \<Rightarrow> 'dt \<Rightarrow> 'dt \<times> 'ch list"
  Marshal :: "DependencyDescriptorExtension \<Rightarrow> error + 8 word list"

subsection \<open>Helpers of packages outside the sources\<close>

text \<open>
  Modelled from the spec: \<open>buffer.GetActiveDecodeTargetBitmask\<close> is not in the sources.
  The spec: the OR of \<open>1 << i\<close> for every decode target whose layer is at most the given
  layer in both dimensions, \<open>i\<close> being the target's index.
\<close>

definition GetActiveDecodeTargetBitmask ::
  "VideoLayer \<Rightarrow> DependencyDescriptorDecodeTarget list \<Rightarrow> u32 option"
where
  "GetActiveDecodeTargetBitmask layer dts =
     Some (foldl (\<lambda>mask dt.
              if Spatial (Layer dt) \<le> Spatial layer \<and> Temporal (Layer dt) \<le> Temporal layer
              then mask OR push_bit (nat (Target dt)) 1 else mask) 0 dts)"

text \<open>
  Modelled from the spec: \<open>Base.Rollback\<close> is not in the sources. The spec: restore
  \<open>current_layer\<close> from \<open>previous_layer\<close>.
\<close>

definition Base_Rollback ::
  "('c, 'ch, 'dt) DependencyDescriptor \<Rightarrow> ('c, 'ch, 'dt) DependencyDescriptor"
where
  "Base_Rollback d = d\<lparr>currentLayer := previousLayer d\<rparr>"

definition logw ::
  "logLevel \<Rightarrow> string \<Rightarrow> ('c, 'ch, 'dt) DependencyDescriptor \<Rightarrow> ('c, 'ch, 'dt) DependencyDescriptor"
where
  "logw lvl msg d = d\<lparr>logger := logger d @ [(lvl, msg)]\<rparr>"

subsection \<open>Structure and active-target updates\<close>

text \<open>
  The loop over the decode targets in \<open>updateDependencyStructure\<close>. \<open>n\<close> is
  \<open>len(d.chains)\<close>. Each result pairs the new decode target with whether the error line
  was logged for it. Indexing \<open>DecodeTargetProtectedByChain\<close> or \<open>d.chains\<close> out of
  range panics.
\<close>

fun newTargets ::
  "('c, 'ch, 'dt) collaborators \<Rightarrow> FrameDependencyStructure \<Rightarrow> nat \<Rightarrow>
   DependencyDescriptorDecodeTarget list \<Rightarrow> panic + ('dt \<times> bool) list"
where
  "newTargets ops s n [] = Inr []"
| "newTargets ops s n (dt # dts) =
     (case (if NumChains s > 0 then
              (if Target dt < 0 \<or> int (length (DecodeTargetProtectedByChain s)) \<le> Target dt
               then Inl IndexOutOfRange
               else (let chainIdx = DecodeTargetProtectedByChain s ! nat (Target dt)
                     in if chainIdx \<ge> int n then Inr (None, True)
                        else if chainIdx < 0 then Inl IndexOutOfRange
                        else Inr (Some (nat chainIdx), False)))
            else Inr (None, False)) of
        Inl p \<Rightarrow> Inl p
      | Inr (chain, logged) \<Rightarrow>
          (case newTargets ops s n dts of
             Inl p \<Rightarrow> Inl p
           | Inr rest \<Rightarrow> Inr ((NewDecodeTarget ops dt chain, logged) # rest)))"

definition updateDependencyStructure ::
  "('c, 'ch, 'dt) collaborators \<Rightarrow> ('c, 'ch, 'dt) DependencyDescriptor \<Rightarrow>
   FrameDependencyStructure option \<Rightarrow> DependencyDescriptorDecodeTarget list \<Rightarrow>
   panic + ('c, 'ch, 'dt) DependencyDescriptor"
where
  "updateDependencyStructure ops d st dts =
     (case st of
        None \<Rightarrow> Inl NilPointerDereference
      | Some s \<Rightarrow>
          (let cs = map (\<lambda>chainIdx. NewFrameChain ops (int chainIdx)) [0 ..< nat (NumChains s)]
           in case newTargets ops s (length cs) dts of
                Inl p \<Rightarrow> Inl p
              | Inr ts \<Rightarrow>
                  Inr (d\<lparr>structure := st, chains := cs, decodeTargets := map fst ts,
                         logger := logger d @
                           map (\<lambda>_. (Error, ''DecodeTargetProtectedByChain chainIdx out of range''))
                               (filter snd ts)\<rparr>)))"

fun updateActiveAll ::
  "('c, 'ch, 'dt) collaborators \<Rightarrow> u32 \<Rightarrow> 'ch list \<Rightarrow> 'dt list \<Rightarrow> 'dt list \<times> 'ch list"
where
  "updateActiveAll ops bm cs [] = ([], cs)"
| "updateActiveAll ops bm cs (dt # dts) =
     (let (dt', cs') = UpdateActive ops bm cs dt;
          (dts', cs'') = updateActiveAll ops bm cs' dts
      in (dt' # dts', cs''))"

definition updateActiveDecodeTargets ::
  "('c, 'ch, 'dt) collaborators \<Rightarrow> ('c, 'ch, 'dt) DependencyDescriptor \<Rightarrow> u32 \<Rightarrow>
   ('c, 'ch, 'dt) DependencyDescriptor"
where
  "updateActiveDecodeTargets ops d bm =
     (let cs1 = map (BeginUpdateActive ops) (chains d);
          (dts, cs2) = updateActiveAll ops bm cs1 (decodeTargets d)
      in d\<lparr>chains := map (EndUpdateActive ops) cs2, decodeTargets := dts\<rparr>)"

subsection \<open>Select\<close>

text \<open>
  The loop that looks for the highest decode target that is active, within the target layer
  and valid for this frame. It returns the decode targets as the calls to \<open>OnFrame\<close>
  left them, and either the error of such a call or the target found with its indication.
\<close>

definition noDecodeTarget :: DependencyDescriptorDecodeTarget where
  "noDecodeTarget = \<lparr>Target = - 1, Layer = InvalidLayer\<rparr>"

fun findDecodeTarget ::
  "('c, 'ch, 'dt) collaborators \<Rightarrow> 'c \<Rightarrow> 'ch list \<Rightarrow> VideoLayer \<Rightarrow> u64 \<Rightarrow>
   FrameDependencyTemplate \<Rightarrow> 'dt list \<Rightarrow>
   (error + DependencyDescriptorDecodeTarget \<times> DecodeTargetIndication) \<times> 'dt list"
where
  "findDecodeTarget ops c cs target efn fd [] = (Inr (noDecodeTarget, DecodeTargetNotPresent), [])"
| "findDecodeTarget ops c cs target efn fd (dt # dts) =
     (if \<not> Active ops dt \<or> Spatial (Layer (EmbeddedTarget ops dt)) > Spatial target
         \<or> Temporal (Layer (EmbeddedTarget ops dt)) > Temporal target
      then (let (r, dts') = findDecodeTarget ops c cs target efn fd dts in (r, dt # dts'))
      else
        (let ((frameResult, err), dt') = DecodeTargetOnFrame ops c cs efn fd dt
         in case err of
              Some e \<Rightarrow> (Inl e, dt' # dts)
            | None \<Rightarrow>
                if TargetValid frameResult
                then (Inr (EmbeddedTarget ops dt', DTI frameResult), dt' # dts)
                else (let (r, dts') = findDecodeTarget ops c cs target efn fd dts
                      in (r, dt' # dts'))))"

text \<open>The decodability check over the frame diffs, with the relaxed test of the source.\<close>

fun isDecodable :: "('c, 'ch, 'dt) collaborators \<Rightarrow> 'c \<Rightarrow> u64 \<Rightarrow> int list \<Rightarrow> bool" where
  "isDecodable ops c efn [] = True"
| "isDecodable ops c efn (fdiff # fdiffs) =
     (if fdiff = 0 then isDecodable ops c efn fdiffs
      else if fst (GetDecision ops c (efn - word_of_int fdiff)) = selectorDecisionDropped
      then False
      else isDecodable ops c efn fdiffs)"

text \<open>The extension that \<open>Select\<close> hands to \<open>Marshal\<close>.\<close>

definition rewrittenExtension ::
  "('c, 'ch, 'dt) DependencyDescriptor \<Rightarrow> dede_DependencyDescriptor \<Rightarrow>
   DependencyDescriptorExtension"
where
  "rewrittenExtension d dd =
     \<lparr>ExtensionDescriptor =
        (if AttachedStructure dd = None \<and> activeDecodeTargetsBitmask d \<noteq> None
         then dd\<lparr>ActiveDecodeTargetsBitmask := activeDecodeTargetsBitmask d\<rparr> else dd),
      ExtensionStructure = structure d\<rparr>"

text \<open>
  The part of \<open>Select\<close> from the switch of layers to the end: \<open>hdt\<close> is the decode target
  that the loop found.
\<close>

definition forward ::
  "('c, 'ch, 'dt) collaborators \<Rightarrow> ('c, 'ch, 'dt) DependencyDescriptor \<Rightarrow> ExtPacket \<Rightarrow>
   ExtDependencyDescriptor \<Rightarrow> VideoLayerSelectorResult \<Rightarrow> DependencyDescriptorDecodeTarget \<Rightarrow>
   ('c, 'ch, 'dt) DependencyDescriptor \<times> VideoLayerSelectorResult"
where
  "forward ops d extPkt ddwdt result hdt =
     (let dd = Descriptor ddwdt;
          fd = FrameDependencies dd;
          (d1, result1) =
            (if currentLayer d \<noteq> Layer hdt then
               (let r1 = result\<lparr>IsSwitching := True\<rparr>;
                    (r2, da) = (if \<not> IsValid (currentLayer d)
                                then (r1\<lparr>IsResuming := True\<rparr>, logw Info ''resuming at layer'' d)
                                else (r1, d));
                    db = da\<lparr>previousLayer := currentLayer da, currentLayer := Layer hdt\<rparr>;
                    dc = db\<lparr>previousActiveDecodeTargetsBitmask := activeDecodeTargetsBitmask db,
                            activeDecodeTargetsBitmask :=
                              GetActiveDecodeTargetBitmask (currentLayer db) (DecodeTargets ddwdt)\<rparr>
                in (logw Debug ''switch to target'' dc, r2\<lparr>IsRelevant := True\<rparr>))
             else (d, result));
          (d2, result2) =
            (case Marshal ops (rewrittenExtension d1 dd) of
               Inl e \<Rightarrow>
                 (logw Warn ''error marshalling dependency descriptor extension'' d1, result1)
             | Inr bytes \<Rightarrow> (d1, result1\<lparr>ResultDependencyDescriptorExtension := Some bytes\<rparr>));
          d3 = (if Integrity ddwdt
                then d2\<lparr>decisions := AddForwarded ops (decisions d2) (ExtFrameNum ddwdt)\<rparr>
                else d2)
      in (d3, result2\<lparr>RTPMarker := Marker extPkt \<or>
                         (LastPacketInFrame dd \<and>
                          Spatial (currentLayer d3) = signed_take_bit 31 (SpatialId fd)),
                       IsSelected := True\<rparr>))"

definition dropFrame ::
  "('c, 'ch, 'dt) collaborators \<Rightarrow> string \<Rightarrow> u64 \<Rightarrow> ('c, 'ch, 'dt) DependencyDescriptor \<Rightarrow>
   ('c, 'ch, 'dt) DependencyDescriptor"
where
  "dropFrame ops msg efn d = (logw Debug msg d)\<lparr>decisions := AddDropped ops (decisions d) efn\<rparr>"

text \<open>
  The part of \<open>Select\<close> from the structure update to the end of the loop over the decode
  targets: the selector as these steps leave it, and what the loop found.
\<close>

definition locateDecodeTarget ::
  "('c, 'ch, 'dt) collaborators \<Rightarrow> ('c, 'ch, 'dt) DependencyDescriptor \<Rightarrow>
   ExtDependencyDescriptor \<Rightarrow>
   panic + ('c, 'ch, 'dt) DependencyDescriptor \<times>
           (error + DependencyDescriptorDecodeTarget \<times> DecodeTargetIndication)"
where
  "locateDecodeTarget ops d ddwdt =
     (let dd = Descriptor ddwdt;
          extFrameNum = ExtFrameNum ddwdt;
          fd = FrameDependencies dd
      in case (if StructureUpdated ddwdt
               then updateDependencyStructure ops d (AttachedStructure dd) (DecodeTargets ddwdt)
               else Inr d) of
           Inl p \<Rightarrow> Inl p
         | Inr d1 \<Rightarrow>
             (case (if ActiveDecodeTargetsUpdated ddwdt
                    then (case ActiveDecodeTargetsBitmask dd of
                            None \<Rightarrow> Inl NilPointerDereference
                          | Some bm \<Rightarrow> Inr (updateActiveDecodeTargets ops d1 bm))
                    else Inr d1) of
                Inl p \<Rightarrow> Inl p
              | Inr d2 \<Rightarrow>
                  (let d3 = d2\<lparr>chains :=
                              map (FrameChainOnFrame ops (decisions d2) extFrameNum fd) (chains d2)\<rparr>;
                       (found, dts) =
                         findDecodeTarget ops (decisions d3) (chains d3) (targetLayer d3)
                           extFrameNum fd (decodeTargets d3)
                   in Inr (d3\<lparr>decodeTargets := dts\<rparr>, found))))"

definition Select ::
  "('c, 'ch, 'dt) collaborators \<Rightarrow> ('c, 'ch, 'dt) DependencyDescriptor \<Rightarrow> ExtPacket \<Rightarrow>
   panic + ('c, 'ch, 'dt) DependencyDescriptor \<times> VideoLayerSelectorResult"
where
  "Select ops d extPkt =
     (let result = emptyResult\<lparr>IsRelevant := IsValid (currentLayer d)\<rparr>
      in case PacketDependencyDescriptor extPkt of
           None \<Rightarrow> Inr (logw Debug ''drop packet, no DD'' d, result)
         | Some ddwdt \<Rightarrow>
             (let dd = Descriptor ddwdt;
                  extFrameNum = ExtFrameNum ddwdt;
                  fd = FrameDependencies dd;
                  (sd, err) = GetDecision ops (decisions d) extFrameNum
              in if err \<noteq> None then
                   Inr (logw Debug ''drop packet on decision error'' d, result)
                 else if sd = selectorDecisionDropped then
                   Inr (logw Debug ''drop packet already dropped'' d, result)
                 else
                   (case locateDecodeTarget ops d ddwdt of
                      Inl p \<Rightarrow> Inl p
                    | Inr (d4, Inl e) \<Rightarrow>
                        Inr (dropFrame ops ''drop packet for frame detection error''
                               extFrameNum d4, result)
                    | Inr (d4, Inr (highestDecodeTarget, dti)) \<Rightarrow>
                        if Target highestDecodeTarget < 0 then
                          Inr (dropFrame ops ''drop packet for no target found'' extFrameNum d4,
                               result)
                        else if dti = DecodeTargetNotPresent then
                          Inr (dropFrame ops ''drop packet for decode target not present''
                                 extFrameNum d4, result)
                        else if \<not> isDecodable ops (decisions d4) extFrameNum (FrameDiffs fd) then
                          Inr (dropFrame ops ''drop packet for not decodable'' extFrameNum d4,
                               result)
                        else Inr (forward ops d4 extPkt ddwdt result highestDecodeTarget))))"

definition Rollback ::
  "('c, 'ch, 'dt) DependencyDescriptor \<Rightarrow> ('c, 'ch, 'dt) DependencyDescriptor"
where
  "Rollback d =
     Base_Rollback (d\<lparr>activeDecodeTargetsBitmask := previousActiveDecodeTargetsBitmask d\<rparr>)"

subsection \<open>The collaborators as the spec describes them\<close>

text \<open>
  Modelled from the spec: \<open>SelectorDecisionCache\<close> is not in the sources. The spec: a
  bounded map from extended frame numbers to forwarded or dropped, of capacity \<open>N\<close> with
  margin \<open>T\<close>; the highest inserted frame number \<open>H\<close> advances on any insert and
  entries with key below \<open>H - N + T\<close> are evicted; a decision once written is kept
  (first write wins); \<open>get_decision\<close> answers \<open>TooOld\<close> exactly for keys below
  \<open>H - N + T\<close> and \<open>Unknown\<close> for keys in the window that were never written; an
  insert of a key that is too old takes no effect.
\<close>

record SelectorDecisionCache =
  numEntries :: nat
  margin :: nat
  highestFrame :: "u64 option"
  entries :: "u64 \<Rightarrow> selectorDecision option"

definition NewSelectorDecisionCache :: "nat \<Rightarrow> nat \<Rightarrow> SelectorDecisionCache" where
  "NewSelectorDecisionCache n t =
     \<lparr>numEntries = n, margin = t, highestFrame = None, entries = (\<lambda>_. None)\<rparr>"

definition belowWindow :: "SelectorDecisionCache \<Rightarrow> u64 \<Rightarrow> u64 \<Rightarrow> bool" where
  "belowWindow c h efn \<longleftrightarrow> uint efn < uint h - int (numEntries c) + int (margin c)"

definition cacheGetDecision :: "SelectorDecisionCache \<Rightarrow> u64 \<Rightarrow> selectorDecision \<times> error option" where
  "cacheGetDecision c efn =
     (case highestFrame c of
        None \<Rightarrow> (selectorDecisionUnknown, None)
      | Some h \<Rightarrow>
          if belowWindow c h efn then (selectorDecisionUnknown, Some ''too old'')
          else (case entries c efn of
                  None \<Rightarrow> (selectorDecisionUnknown, None)
                | Some sd \<Rightarrow> (sd, None)))"

definition cacheAdd :: "selectorDecision \<Rightarrow> SelectorDecisionCache \<Rightarrow> u64 \<Rightarrow> SelectorDecisionCache" where
  "cacheAdd sd c efn =
     (if snd (cacheGetDecision c efn) \<noteq> None then c
      else (let h = (case highestFrame c of None \<Rightarrow> efn | Some h0 \<Rightarrow> max h0 efn);
                es = (if entries c efn = None then (entries c)(efn := Some sd) else entries c)
            in c\<lparr>highestFrame := Some h,
                 entries := (\<lambda>x. if belowWindow c h x then None else es x)\<rparr>))"

text \<open>
  Modelled from the spec: \<open>FrameChain\<close> is not in the sources. The spec gives a chain the
  state (expected previous frame, active, broken): a frame whose previous frame in the chain
  is recorded as dropped or is too old breaks the chain, a frame whose previous frame in the
  chain is the expected one moves the expectation to itself, and a chain made for a fresh
  structure is not broken. The bracket \<open>begin_update_active\<close> / \<open>end_update_active\<close>
  has no effect on that state.
\<close>

record FrameChain =
  chainIdx :: int
  expectedPrevious :: u64
  chainActive :: bool
  broken :: bool

definition specNewFrameChain :: "int \<Rightarrow> FrameChain" where
  "specNewFrameChain i = \<lparr>chainIdx = i, expectedPrevious = 0, chainActive = False, broken = False\<rparr>"

definition specFrameChainOnFrame ::
  "SelectorDecisionCache \<Rightarrow> u64 \<Rightarrow> FrameDependencyTemplate \<Rightarrow> FrameChain \<Rightarrow> FrameChain"
where
  "specFrameChainOnFrame c efn fd fc =
     (if chainIdx fc < 0 \<or> int (length (ChainDiffs fd)) \<le> chainIdx fc then fc
      else (let prev = efn - word_of_int (ChainDiffs fd ! nat (chainIdx fc));
                (sd, err) = cacheGetDecision c prev
            in if sd = selectorDecisionDropped \<or> err \<noteq> None then fc\<lparr>broken := True\<rparr>
               else if prev = expectedPrevious fc then fc\<lparr>expectedPrevious := efn\<rparr>
               else fc))"

text \<open>
  Modelled from the spec: \<open>DecodeTarget\<close> is not in the sources. The spec: the target
  with its chain, an active flag and a valid flag; \<open>update_active\<close> sets
  \<open>active = (bitmask >> target_index) & 1\<close>; \<open>on_frame\<close> reads the indication of this
  target, fails when the frame has none, and answers
  \<open>target_valid = active \<and> (chain is None \<or> \<not> chain.broken) \<and> DTI \<noteq> NotPresent\<close>,
  which \<open>valid\<close> then reports.
\<close>

record DecodeTarget =
  target :: DependencyDescriptorDecodeTarget
  chain :: "nat option"
  active :: bool
  valid :: bool

definition specNewDecodeTarget :: "DependencyDescriptorDecodeTarget \<Rightarrow> nat option \<Rightarrow> DecodeTarget" where
  "specNewDecodeTarget dt ch = \<lparr>target = dt, chain = ch, active = False, valid = False\<rparr>"

definition specUpdateActive :: "u32 \<Rightarrow> FrameChain list \<Rightarrow> DecodeTarget \<Rightarrow> DecodeTarget \<times> FrameChain list" where
  "specUpdateActive bm cs dt =
     (dt\<lparr>active := (drop_bit (nat (Target (target dt))) bm AND 1 \<noteq> 0)\<rparr>, cs)"

definition specDecodeTargetOnFrame ::
  "SelectorDecisionCache \<Rightarrow> FrameChain list \<Rightarrow> u64 \<Rightarrow> FrameDependencyTemplate \<Rightarrow> DecodeTarget \<Rightarrow>
   (FrameDetectionResult \<times> error option) \<times> DecodeTarget"
where
  "specDecodeTargetOnFrame c cs efn fd dt =
     (let i = Target (target dt)
      in if i < 0 \<or> int (length (DecodeTargetIndications fd)) \<le> i
         then ((\<lparr>TargetValid = False, DTI = DecodeTargetNotPresent\<rparr>, Some ''missing dti''), dt)
         else (let dti = DecodeTargetIndications fd ! nat i;
                   intact = (case chain dt of
                               None \<Rightarrow> True
                             | Some k \<Rightarrow> k < length cs \<and> \<not> broken (cs ! k));
                   v = (active dt \<and> intact \<and> dti \<noteq> DecodeTargetNotPresent)
               in ((\<lparr>TargetValid = v, DTI = dti\<rparr>, None), dt\<lparr>valid := v\<rparr>)))"

text \<open>
  Modelled from the spec: \<open>DependencyDescriptorExtension.Marshal\<close> is not in the sources
  and the spec leaves the wire format to the parser. Two stand-ins: one that serialises to a
  fixed byte per descriptor, one that always fails.
\<close>

definition marshalOk :: "DependencyDescriptorExtension \<Rightarrow> error + 8 word list" where
  "marshalOk ext = Inr [ucast (FrameNumber (ExtensionDescriptor ext))]"

definition marshalFail :: "DependencyDescriptorExtension \<Rightarrow> error + 8 word list" where
  "marshalFail ext = Inl ''marshal failed''"

definition specCollaborators ::
  "(SelectorDecisionCache, FrameChain, DecodeTarget) collaborators"
where
  "specCollaborators =
     \<lparr>GetDecision = cacheGetDecision,
      AddForwarded = cacheAdd selectorDecisionForwarded,
      AddDropped = cacheAdd selectorDecisionDropped,
      NewFrameChain = specNewFrameChain,
      FrameChainOnFrame = specFrameChainOnFrame,
      BeginUpdateActive = (\<lambda>fc. fc),
      EndUpdateActive = (\<lambda>fc. fc),
      NewDecodeTarget = specNewDecodeTarget,
      EmbeddedTarget = target,
      Active = active,
      DecodeTargetOnFrame = specDecodeTargetOnFrame,
      UpdateActive = specUpdateActive,
      Marshal = marshalOk\<rparr>"

text \<open>
  A selector as \<open>NewDependencyDescriptor\<close> makes it: the decision cache of 256 entries
  with margin 80, no structure, no chains, no decode targets; the layers of a fresh \<open>Base\<close>
  are invalid, with the target layer given.
\<close>

definition NewDependencyDescriptor ::
  "VideoLayer \<Rightarrow> (SelectorDecisionCache, FrameChain, DecodeTarget) DependencyDescriptor"
where
  "NewDependencyDescriptor tgt =
     \<lparr>currentLayer = InvalidLayer, previousLayer = InvalidLayer, targetLayer = tgt,
      maxLayer = InvalidLayer, requestSpatial = - 1, maxSeenLayer = InvalidLayer,
      logger = [],
      decisions = NewSelectorDecisionCache 256 80,
      previousActiveDecodeTargetsBitmask = None, activeDecodeTargetsBitmask = None,
      structure = None, chains = [], decodeTargets = []\<rparr>"

section \<open>Properties of WrapAround\<close>

subsection \<open>Casts between the raw and the extended width\<close>

lemma wi_mod_down:
  assumes "LENGTH('a::len) \<le> m"
  shows "(word_of_int (k mod 2 ^ m) :: 'a word) = word_of_int k"
proof -
  have "(2::int) ^ LENGTH('a) dvd 2 ^ m" using assms by (rule le_imp_power_dvd)
  then have "k mod 2 ^ m mod 2 ^ LENGTH('a) = k mod 2 ^ LENGTH('a)"
    by (rule mod_mod_cancel)
  then show ?thesis by (simp add: word_of_int_eq_iff take_bit_eq_mod)
qed

lemma ucast_down_add:
  assumes "LENGTH('a::len) \<le> LENGTH('b::len)"
  shows "(ucast ((x::'b word) + y) :: 'a word) = ucast x + ucast y"
proof -
  have "(ucast (x + y) :: 'a word) = word_of_int ((uint x + uint y) mod 2 ^ LENGTH('b))"
    by (simp only: ucast_eq uint_word_ariths)
  also have "\<dots> = word_of_int (uint x + uint y)"
    by (rule wi_mod_down [OF assms])
  also have "\<dots> = word_of_int (uint x) + word_of_int (uint y)"
    by (simp only: wi_hom_add)
  finally show ?thesis by (simp only: ucast_eq)
qed

lemma ucast_down_sub:
  assumes "LENGTH('a::len) \<le> LENGTH('b::len)"
  shows "(ucast ((x::'b word) - y) :: 'a word) = ucast x - ucast y"
proof -
  have "(ucast (x - y) :: 'a word) = word_of_int ((uint x - uint y) mod 2 ^ LENGTH('b))"
    by (simp only: ucast_eq uint_word_ariths)
  also have "\<dots> = word_of_int (uint x - uint y)"
    by (rule wi_mod_down [OF assms])
  also have "\<dots> = word_of_int (uint x) - word_of_int (uint y)"
    by (simp only: wi_hom_sub)
  finally show ?thesis by (simp only: ucast_eq)
qed

lemma ucast_up_down:
  assumes "LENGTH('a::len) \<le> LENGTH('b::len)"
  shows "(ucast (ucast (x::'a word) :: 'b word) :: 'a word) = x"
  using assms by (simp add: is_up.rep_eq ucast_up_ucast_id)

lemma ucast_pow_len: "(ucast (2 ^ LENGTH('a::len) :: 'b::len word) :: 'a word) = 0"
  by (rule bit_word_eqI) (auto simp add: bit_simps)

lemma ucast_zero_iff: "(ucast (c :: 'b::len word) :: 'a::len word) = 0 \<longleftrightarrow> 2 ^ LENGTH('a) dvd unat c"
  by (metis of_nat_unat word_of_nat_eq_0_iff)

lemma unat_ucast_mod: "unat (ucast (c :: 'b::len word) :: 'a::len word) = unat c mod 2 ^ LENGTH('a)"
  by (metis of_nat_unat unat_of_nat)

lemma unat_ucast_up:
  assumes "LENGTH('a::len) \<le> LENGTH('b::len)"
  shows "unat (ucast (x :: 'a word) :: 'b word) = unat x"
  by (metis assms is_up.rep_eq uint_up_ucast unat_eq_nat_uint)

lemma unat_pow2:
  assumes "n < LENGTH('b::len)"
  shows "unat (2 ^ n :: 'b word) = 2 ^ n"
proof -
  have "unat (2 ^ n :: 'b word) = unat (push_bit n 1 :: 'b word)" by simp
  also have "\<dots> = take_bit LENGTH('b) (push_bit n (1::nat))"
    by (simp only: unsigned_push_bit_eq unsigned_1)
  also have "\<dots> = 2 ^ n" using assms by (simp add: take_bit_nat_eq_self_iff)
  finally show ?thesis .
qed

subsection \<open>The half range \<open>fullRange >> 1\<close>\<close>

lemma half_fullRange:
  assumes "LENGTH('a::len) < LENGTH('b::len)"
  shows "drop_bit 1 (push_bit LENGTH('a) 1 :: 'b word) = 2 ^ (LENGTH('a) - 1)"
  using assms by (intro bit_word_eqI) (auto simp add: bit_simps)

lemma pow_len_half: "(2::nat) ^ LENGTH('a::len) div 2 = 2 ^ (LENGTH('a) - 1)"
  by (cases "LENGTH('a)") simp_all

lemma unat_half_b:
  assumes "LENGTH('a::len) < LENGTH('b::len)"
  shows "unat (2 ^ (LENGTH('a) - 1) :: 'b word) = 2 ^ LENGTH('a) div 2"
  using assms by (simp add: pow_len_half unat_pow2)

lemma unat_half_a: "unat (2 ^ (LENGTH('a::len) - 1) :: 'a word) = 2 ^ LENGTH('a) div 2"
  by (simp add: pow_len_half unat_pow2)

lemma ucast_half:
  assumes "LENGTH('a::len) \<le> LENGTH('b::len)"
  shows "(ucast (2 ^ (LENGTH('a) - 1) :: 'b word) :: 'a word) = 2 ^ (LENGTH('a) - 1)"
  using assms by (intro bit_word_eqI) (auto simp add: bit_simps)

lemma gt_half_iff:
  fixes g :: "'a::len word"
  assumes lt: "LENGTH('a) < LENGTH('b::len)"
  shows "g > ucast (drop_bit 1 (push_bit LENGTH('a) 1 :: 'b word)) \<longleftrightarrow>
         unat g > 2 ^ LENGTH('a) div 2"
proof -
  have "LENGTH('a) \<le> LENGTH('b)" using lt by simp
  then show ?thesis
    by (simp only: half_fullRange [OF lt] ucast_half word_less_nat_alt unat_half_a)
qed

lemma ext_gt_half_iff:
  fixes t :: "'b::len word"
  assumes lt: "LENGTH('a::len) < LENGTH('b)"
  shows "t > drop_bit 1 (push_bit LENGTH('a) 1 :: 'b word) \<longleftrightarrow> unat t > 2 ^ LENGTH('a) div 2"
  by (simp only: half_fullRange [OF lt] word_less_nat_alt unat_half_b [OF lt])

lemma isWrapBack_iff:
  fixes w :: "('a::len, 'b::len) WrapAround"
  assumes lt: "LENGTH('a) < LENGTH('b)" and fr: "fullRange w = push_bit LENGTH('a) 1"
  shows "isWrapBack w earlier later \<longleftrightarrow>
         unat later < 2 ^ LENGTH('a) div 2 \<and> 2 ^ LENGTH('a) div 2 \<le> unat earlier"
proof -
  have le: "LENGTH('a) \<le> LENGTH('b)" using lt by simp
  show ?thesis
    unfolding isWrapBack_def fr
    by (simp only: half_fullRange [OF lt] word_less_nat_alt word_le_nat_alt unat_half_b [OF lt]
        unat_ucast_up [OF le])
qed

subsection \<open>In-order updates\<close>

text \<open>
  Claim C4. On an initialized extender, a raw value whose gap \<open>(raw - highest) mod 2^W\<close> is
  at most \<open>2^W / 2\<close> is taken in order: \<open>cycles\<close> grows by \<open>2^W\<close> exactly when
  \<open>raw < highest\<close>, \<open>highest\<close> becomes \<open>raw\<close>, the extended value returned is
  \<open>cycles + raw\<close> and no restart is reported. With \<open>highest = 65530\<close> on a 16-bit
  counter, the raw values 65534, 65535, 0, 1 extend to 65534, 65535, 65536, 65537 without
  a restart. The extended type is wider than the raw one, as in every use of the type.
\<close>

theorem Update_in_order:
  fixes w :: "('a::len, 'b::len) WrapAround"
  assumes lt: "LENGTH('a) < LENGTH('b)"
    and fr: "fullRange w = push_bit LENGTH('a) 1"
    and ini: "initialized w"
    and gap: "unat (val - highest w) \<le> 2 ^ LENGTH('a) div 2"
  shows "(\<exists>w' r. Update w val = (w', r) \<and>
           cycles w' = (if val < highest w then cycles w + 2 ^ LENGTH('a) else cycles w) \<and>
           highest w' = val \<and> start w' = start w \<and>
           extendedHighest w' = cycles w' + ucast val \<and>
           ExtendedVal r = cycles w' + ucast val \<and>
           PreExtendedHighest r = extendedHighest w \<and> \<not> IsRestart r) \<and>
         (let w0 = fst (Update (NewWrapAround :: (16, 64) WrapAround) 65530)
          in highest w0 = 65530 \<and>
             map (\<lambda>r. (ExtendedVal r, IsRestart r)) (snd (UpdateAll w0 [65534, 65535, 0, 1])) =
               [(65534, False), (65535, False), (65536, False), (65537, False)])"
proof
  have "\<not> val - highest w > ucast (drop_bit 1 (push_bit LENGTH('a) 1 :: 'b word))"
    using gap by (simp only: gt_half_iff [OF lt] not_less)
  then show "\<exists>w' r. Update w val = (w', r) \<and>
           cycles w' = (if val < highest w then cycles w + 2 ^ LENGTH('a) else cycles w) \<and>
           highest w' = val \<and> start w' = start w \<and>
           extendedHighest w' = cycles w' + ucast val \<and>
           ExtendedVal r = cycles w' + ucast val \<and>
           PreExtendedHighest r = extendedHighest w \<and> \<not> IsRestart r"
    using ini fr
    by (simp add: Update_def Let_def updateExtendedHighest_def getExtendedHighest_def zeroResult_def)
next
  show "let w0 = fst (Update (NewWrapAround :: (16, 64) WrapAround) 65530)
        in highest w0 = 65530 \<and>
           map (\<lambda>r. (ExtendedVal r, IsRestart r)) (snd (UpdateAll w0 [65534, 65535, 0, 1])) =
             [(65534, False), (65535, False), (65536, False), (65537, False)]"
    by (simp add: Update_def maybeAdjustStart_def NewWrapAround_def Let_def
        updateExtendedHighest_def getExtendedHighest_def zeroResult_def)
qed

theorem Update_in_order_witness:
  "\<exists>w' r. Update \<lparr>fullRange = 65536, initialized = True, start = 65530 :: 16 word,
                    highest = 65535, cycles = 0 :: 64 word, extendedHighest = 65535\<rparr> 0 = (w', r) \<and>
          cycles w' = 65536 \<and> highest w' = 0 \<and> ExtendedVal r = 65536 \<and> \<not> IsRestart r"
  using Update_in_order [where ?'a = 16 and ?'b = 64 and val = 0 and
      w = "\<lparr>fullRange = 65536, initialized = True, start = 65530, highest = 65535,
            cycles = 0, extendedHighest = 65535\<rparr>", THEN conjunct1]
  by fastforce

subsection \<open>Out-of-order stragglers\<close>

text \<open>
  Claim C5. When the observed span \<open>extendedHighest - extendedStart + 1\<close> exceeds
  \<open>2^W / 2\<close>, an out-of-order update (gap above \<open>2^W / 2\<close>) returns the extender as it
  was: no field changes. The extended value is \<open>cycles + raw\<close>, with \<open>cycles - 2^W\<close> in
  place of \<open>cycles\<close> when \<open>raw\<close> lies in the upper half of the range and \<open>highest\<close> in
  the lower half.
\<close>

theorem Update_straggler:
  fixes w :: "('a::len, 'b::len) WrapAround"
  assumes lt: "LENGTH('a) < LENGTH('b)"
    and fr: "fullRange w = push_bit LENGTH('a) 1"
    and ini: "initialized w"
    and gap: "unat (val - highest w) > 2 ^ LENGTH('a) div 2"
    and span: "unat (GetExtendedHighest w - GetExtendedStart w + 1) > 2 ^ LENGTH('a) div 2"
  shows "\<exists>r. Update w val = (w, r) \<and>
           ExtendedVal r =
             (if 2 ^ LENGTH('a) div 2 \<le> unat val \<and> unat (highest w) < 2 ^ LENGTH('a) div 2
              then cycles w - 2 ^ LENGTH('a) else cycles w) + ucast val \<and>
           PreExtendedHighest r = extendedHighest w \<and> \<not> IsRestart r"
proof -
  have g: "val - highest w > ucast (drop_bit 1 (push_bit LENGTH('a) 1 :: 'b word))"
    using gap by (simp only: gt_half_iff [OF lt])
  have s: "GetExtendedHighest w - GetExtendedStart w + 1 >
           drop_bit 1 (push_bit LENGTH('a) 1 :: 'b word)"
    using span by (simp only: ext_gt_half_iff [OF lt])
  show ?thesis using ini g s
    by (simp add: Update_def maybeAdjustStart_def Let_def fr getExtendedHighest_def zeroResult_def
        isWrapBack_iff [OF lt fr] del: push_bit_of_1)
       (simp add: conj_commute)
qed

theorem Update_straggler_witness:
  "UpdateAll (NewWrapAround :: (16, 64) WrapAround) [0, 30000, 60000, 5] =
     (\<lparr>fullRange = 65536, initialized = True, start = 0, highest = 5,
       cycles = 65536, extendedHighest = 65541\<rparr>,
      [\<lparr>IsRestart = False, PreExtendedStart = 0, PreExtendedHighest = - 1, ExtendedVal = 0\<rparr>,
       \<lparr>IsRestart = False, PreExtendedStart = 0, PreExtendedHighest = 0, ExtendedVal = 30000\<rparr>,
       \<lparr>IsRestart = False, PreExtendedStart = 0, PreExtendedHighest = 30000, ExtendedVal = 60000\<rparr>,
       \<lparr>IsRestart = False, PreExtendedStart = 0, PreExtendedHighest = 60000, ExtendedVal = 65541\<rparr>]) \<and>
   (\<exists>r. Update \<lparr>fullRange = 65536, initialized = True, start = 0 :: 16 word, highest = 5,
                 cycles = 65536 :: 64 word, extendedHighest = 65541\<rparr> 65533 =
          (\<lparr>fullRange = 65536, initialized = True, start = 0, highest = 5,
            cycles = 65536, extendedHighest = 65541\<rparr>, r) \<and>
        ExtendedVal r = 65533 \<and> \<not> IsRestart r)"
proof
  show "UpdateAll (NewWrapAround :: (16, 64) WrapAround) [0, 30000, 60000, 5] =
     (\<lparr>fullRange = 65536, initialized = True, start = 0, highest = 5,
       cycles = 65536, extendedHighest = 65541\<rparr>,
      [\<lparr>IsRestart = False, PreExtendedStart = 0, PreExtendedHighest = - 1, ExtendedVal = 0\<rparr>,
       \<lparr>IsRestart = False, PreExtendedStart = 0, PreExtendedHighest = 0, ExtendedVal = 30000\<rparr>,
       \<lparr>IsRestart = False, PreExtendedStart = 0, PreExtendedHighest = 30000, ExtendedVal = 60000\<rparr>,
       \<lparr>IsRestart = False, PreExtendedStart = 0, PreExtendedHighest = 60000, ExtendedVal = 65541\<rparr>])"
    by (simp add: Update_def maybeAdjustStart_def NewWrapAround_def Let_def
        updateExtendedHighest_def getExtendedHighest_def zeroResult_def)
next
  show "\<exists>r. Update \<lparr>fullRange = 65536, initialized = True, start = 0 :: 16 word, highest = 5,
                 cycles = 65536 :: 64 word, extendedHighest = 65541\<rparr> 65533 =
          (\<lparr>fullRange = 65536, initialized = True, start = 0, highest = 5,
            cycles = 65536, extendedHighest = 65541\<rparr>, r) \<and>
        ExtendedVal r = 65533 \<and> \<not> IsRestart r"
    using Update_straggler [where ?'a = 16 and ?'b = 64 and val = 65533 and
      w = "\<lparr>fullRange = 65536, initialized = True, start = 0, highest = 5,
            cycles = 65536, extendedHighest = 65541\<rparr>"]
    by (fastforce simp add: GetExtendedHighest_def GetExtendedStart_def)
qed

subsection \<open>Round trip\<close>

text \<open>
  The invariant behind the round trip: \<open>cycles\<close> and \<open>fullRange\<close> vanish when cast down
  to the raw width, that is, both are multiples of \<open>2^W\<close> in wrapping arithmetic.
\<close>

lemma Update_roundtrip_step:
  fixes w :: "('a::len, 'b::len) WrapAround"
  assumes le: "LENGTH('a) \<le> LENGTH('b)"
    and ok: "(ucast (cycles w) :: 'a word) = 0" "(ucast (fullRange w) :: 'a word) = 0"
    and up: "Update w x = (w', r)"
  shows "(ucast (cycles w') :: 'a word) = 0 \<and> fullRange w' = fullRange w \<and>
         (ucast (ExtendedVal r) :: 'a word) = x"
  using ok up
  by (auto simp add: Update_def maybeAdjustStart_def Let_def updateExtendedHighest_def
      getExtendedHighest_def zeroResult_def ucast_down_add [OF le] ucast_down_sub [OF le]
      ucast_up_down [OF le] split: if_splits)

lemma UpdateAll_roundtrip:
  fixes w0 :: "('a::len, 'b::len) WrapAround"
  assumes le: "LENGTH('a) \<le> LENGTH('b)"
  shows "(ucast (cycles w0) :: 'a word) = 0 \<Longrightarrow> (ucast (fullRange w0) :: 'a word) = 0 \<Longrightarrow>
         map (\<lambda>r. ucast (ExtendedVal r)) (snd (UpdateAll w0 vs)) = vs"
proof (induction vs arbitrary: w0)
  case Nil
  then show ?case by simp
next
  case (Cons v vs)
  obtain w1 r where u: "Update w0 v = (w1, r)" by (cases "Update w0 v")
  from Update_roundtrip_step [OF le Cons.prems u]
  have c1: "(ucast (cycles w1) :: 'a word) = 0" and f1: "(ucast (fullRange w1) :: 'a word) = 0"
    and rt: "(ucast (ExtendedVal r) :: 'a word) = v"
    using Cons.prems(2) by simp_all
  obtain w2 rs where ua: "UpdateAll w1 vs = (w2, rs)" by (cases "UpdateAll w1 vs")
  from Cons.IH [OF c1 f1] u ua rt show ?case
    by simp
qed

text \<open>
  Claim C9. For every run of \<open>Update\<close> calls on a fresh extender, each extended value
  returned is congruent to its raw input modulo \<open>2^W\<close>. The same holds from any state in
  which \<open>cycles\<close> is a multiple of \<open>2^W\<close>, also where the temporary
  \<open>cycles - 2^W\<close> wraps below zero.
\<close>

theorem Update_round_trip:
  fixes vs :: "'a::len word list"
  assumes le: "LENGTH('a) \<le> LENGTH('b::len)"
  shows "map (\<lambda>r. unat (ExtendedVal r) mod 2 ^ LENGTH('a))
             (snd (UpdateAll (NewWrapAround :: ('a, 'b) WrapAround) vs)) = map unat vs \<and>
         (\<forall>w0 :: ('a, 'b) WrapAround.
            fullRange w0 = push_bit LENGTH('a) 1 \<and> 2 ^ LENGTH('a) dvd unat (cycles w0) \<longrightarrow>
            map (\<lambda>r. unat (ExtendedVal r) mod 2 ^ LENGTH('a)) (snd (UpdateAll w0 vs)) =
              map unat vs)"
proof -
  have gen: "map (\<lambda>r. unat (ExtendedVal r) mod 2 ^ LENGTH('a)) (snd (UpdateAll w0 vs)) =
             map unat vs"
    if fr: "fullRange w0 = push_bit LENGTH('a) 1" and cy: "2 ^ LENGTH('a) dvd unat (cycles w0)"
    for w0 :: "('a, 'b) WrapAround"
  proof -
    have c0: "(ucast (cycles w0) :: 'a word) = 0" using cy by (simp only: ucast_zero_iff)
    have f0: "(ucast (fullRange w0) :: 'a word) = 0" by (simp add: fr ucast_pow_len)
    have "map unat (map (\<lambda>r. ucast (ExtendedVal r) :: 'a word) (snd (UpdateAll w0 vs))) =
          map unat vs"
      by (simp only: UpdateAll_roundtrip [OF le c0 f0])
    then show ?thesis by (simp add: unat_ucast_mod comp_def)
  qed
  have "map (\<lambda>r. unat (ExtendedVal r) mod 2 ^ LENGTH('a))
             (snd (UpdateAll (NewWrapAround :: ('a, 'b) WrapAround) vs)) = map unat vs"
    by (rule gen) (simp_all add: NewWrapAround_def)
  with gen show ?thesis by blast
qed

theorem Update_round_trip_witness:
  "map (\<lambda>r. unat (ExtendedVal r) mod 2 ^ 16)
       (snd (UpdateAll (NewWrapAround :: (16, 64) WrapAround) [10, 65530, 9, 20])) =
     [10, 65530, 9, 20] \<and>
   map ExtendedVal
       (snd (UpdateAll \<lparr>fullRange = 65536, initialized = True, start = 10 :: 16 word,
                        highest = 5, cycles = 0 :: 64 word, extendedHighest = 5\<rparr> [65533])) =
     [18446744073709551613] \<and>
   (18446744073709551613 :: nat) mod 2 ^ 16 = 65533"
  using Update_round_trip [where ?'a = 16 and ?'b = 64 and vs = "[10, 65530, 9, 20]"]
  by (simp add: Update_def maybeAdjustStart_def Let_def isWrapBack_def
      getExtendedHighest_def zeroResult_def GetExtendedHighest_def GetExtendedStart_def)

end
